theory Spec2Isabelle
  imports Complex_Main
begin

section \<open>Python text, bytes and exceptions\<close>

text \<open>
  A Python \<open>str\<close> is modelled by \<open>string\<close>: the list of its code points, for text whose
  code points are below 256.  \<open>bytes\<close> are lists of 8-bit characters as well.  An exception
  is a value of \<open>exn\<close>; a call that may raise returns \<open>exn + 'a\<close> with \<open>Inl\<close> the exception.
\<close>

type_synonym bytes = string

datatype exn =
    BinasciiError string
  | ValueError string
  | DatabaseError string
  | InvalidToken
  | GpioError string

fun exn_text :: "exn \<Rightarrow> string" where
  "exn_text (BinasciiError m) = m"
| "exn_text (ValueError m) = m"
| "exn_text (DatabaseError m) = m"
| "exn_text InvalidToken = []"
| "exn_text (GpioError m) = m"

text \<open>\<open>str.isspace\<close> on the code points below 256, and \<open>str.strip()\<close>.\<close>

definition py_isspace :: "char \<Rightarrow> bool" where
  "py_isspace c = (of_char c \<in> {9, 10, 11, 12, 13, 28, 29, 30, 31, 32, 133, 160 :: nat})"

definition py_strip :: "string \<Rightarrow> string" where
  "py_strip s = rev (dropWhile py_isspace (rev (dropWhile py_isspace s)))"

text \<open>\<open>str.upper()\<close> on ASCII letters; other characters are left as they are.\<close>

definition upper_char :: "char \<Rightarrow> char" where
  "upper_char c = (let n = of_char c :: nat in if 97 \<le> n \<and> n \<le> 122 then char_of (n - 32) else c)"

definition py_upper :: "string \<Rightarrow> string" where
  "py_upper s = map upper_char s"


section \<open>base64.b64decode\<close>

text \<open>
  \<open>base64.b64decode(s)\<close> with its default \<open>validate=False\<close>, as \<open>_validate_input\<close> and
  \<open>_convert_template\<close> call it: a \<open>str\<close> argument is first encoded as ASCII (a code point
  above 127 raises \<open>ValueError\<close>), then \<open>binascii.a2b_base64\<close> runs in its non-strict mode.
  That loop skips every character outside the alphabet, counts \<open>=\<close> only once two data
  characters of the current quad have been read, stops at a complete pad sequence, and
  at the end of the input raises \<open>binascii.Error\<close> when a quad is left unfinished.
\<close>

definition b64_index :: "char \<Rightarrow> nat option" where
  "b64_index c =
     (let n = of_char c :: nat in
      if 65 \<le> n \<and> n \<le> 90 then Some (n - 65)
      else if 97 \<le> n \<and> n \<le> 122 then Some (n - 71)
      else if 48 \<le> n \<and> n \<le> 57 then Some (n + 4)
      else if n = 43 then Some 62
      else if n = 47 then Some 63
      else None)"

fun a2b_base64 :: "nat \<Rightarrow> nat \<Rightarrow> nat \<Rightarrow> string \<Rightarrow> bytes \<Rightarrow> exn + bytes" where
  "a2b_base64 quad_pos leftchar pads [] out =
     (if quad_pos \<noteq> 0
      then Inl (BinasciiError (if quad_pos = 1 then ''Invalid base64-encoded string''
                               else ''Incorrect padding''))
      else Inr out)"
| "a2b_base64 quad_pos leftchar pads (c # cs) out =
     (if c = CHR ''='' then
        (if 2 \<le> quad_pos \<and> 4 \<le> quad_pos + (pads + 1) then Inr out
         else a2b_base64 quad_pos leftchar (if 2 \<le> quad_pos then pads + 1 else pads) cs out)
      else
        (case b64_index c of
           None \<Rightarrow> a2b_base64 quad_pos leftchar pads cs out
         | Some v \<Rightarrow>
             (if quad_pos = 0 then a2b_base64 1 v 0 cs out
              else if quad_pos = 1 then
                a2b_base64 2 (v mod 16) 0 cs (out @ [char_of (leftchar * 4 + v div 16)])
              else if quad_pos = 2 then
                a2b_base64 3 (v mod 4) 0 cs (out @ [char_of (leftchar * 16 + v div 4)])
              else a2b_base64 0 0 0 cs (out @ [char_of (leftchar * 64 + v)]))))"

definition b64decode :: "string \<Rightarrow> exn + bytes" where
  "b64decode s =
     (if list_ex (\<lambda>c. (128::nat) \<le> of_char c) s
      then Inl (ValueError ''string argument should contain only ASCII characters'')
      else a2b_base64 0 0 0 s [])"

section \<open>The storage of the query system (database.py)\<close>

text \<open>
  The tables are lists of rows in the order the database returns them.  A row of
  \<open>biometric_rows\<close> is one row of the join that \<open>find_biometric_by_template\<close> selects from.
  Every operation opens its own connection; \<open>faults\<close> says, for the n-th operation of the
  process, whether psycopg2 raises there (and with which text), and \<open>operations\<close> counts the
  operations done so far.
\<close>

record biometric_row =
  template :: bytes
  finger :: string
  person_id :: int
  full_name :: string
  cpf :: string
  person_type :: string

record unit_row =
  unit_id :: int
  unit_name :: string
  unit_code :: string

record access_log_row =
  log_person_id :: "int option"
  log_unit_id :: int
  biometric_device :: string
  python_verified :: bool

record database =
  biometric_rows :: "biometric_row list"
  unit_rows :: "unit_row list"
  access_log :: "access_log_row list"
  faults :: "nat \<Rightarrow> string option"
  operations :: nat

definition get_connection :: "database \<Rightarrow> (exn + unit) \<times> database" where
  "get_connection db =
     ((case faults db (operations db) of
         Some m \<Rightarrow> Inl (DatabaseError m)
       | None \<Rightarrow> Inr ()),
      db\<lparr>operations := operations db + 1\<rparr>)"

definition find_biometric_by_template ::
  "database \<Rightarrow> bytes \<Rightarrow> string \<Rightarrow> (exn + biometric_row option) \<times> database" where
  "find_biometric_by_template db template_data fng =
     (case get_connection db of
        (Inl e, db') \<Rightarrow> (Inl e, db')
      | (Inr _, db') \<Rightarrow>
          (Inr (find (\<lambda>b. template b = template_data \<and> finger b = fng) (biometric_rows db')),
           db'))"

definition log_access_attempt ::
  "database \<Rightarrow> int option \<Rightarrow> int \<Rightarrow> string \<Rightarrow> bool \<Rightarrow> (exn + int) \<times> database" where
  "log_access_attempt db pid uid dev verified =
     (case get_connection db of
        (Inl e, db') \<Rightarrow> (Inl e, db')
      | (Inr _, db') \<Rightarrow>
          (Inr (int (length (access_log db')) + 1),
           db'\<lparr>access_log := access_log db' @
                  [\<lparr>log_person_id = pid, log_unit_id = uid,
                    biometric_device = dev, python_verified = verified\<rparr>]\<rparr>))"

definition get_unit_by_code :: "database \<Rightarrow> string \<Rightarrow> (exn + unit_row option) \<times> database" where
  "get_unit_by_code db code =
     (case get_connection db of
        (Inl e, db') \<Rightarrow> (Inl e, db')
      | (Inr _, db') \<Rightarrow> (Inr (find (\<lambda>u. unit_code u = code) (unit_rows db')), db'))"

section \<open>The query service (biometric_service.py)\<close>

datatype AccessResult = GRANTED | DENIED | ERROR

fun AccessResult_value :: "AccessResult \<Rightarrow> string" where
  "AccessResult_value GRANTED = ''GRANTED''"
| "AccessResult_value DENIED = ''DENIED''"
| "AccessResult_value ERROR = ''ERROR''"

definition FingerType_values :: "string list" where
  "FingerType_values =
     [''thumb_right'', ''index_right'', ''middle_right'', ''ring_right'', ''pinky_right'',
      ''thumb_left'', ''index_left'', ''middle_left'', ''ring_left'', ''pinky_left'']"

text \<open>
  The service object: the unit code it was built with, the unit record \<open>_initialize_unit\<close>
  resolved, and \<open>config.sensor.device\<close>.
\<close>

record service =
  svc_unit_code :: string
  unit_info :: unit_row
  device :: string

definition initialize_unit :: "database \<Rightarrow> string \<Rightarrow> (exn + unit_row) \<times> database" where
  "initialize_unit db code =
     (case get_unit_by_code db code of
        (Inl e, db') \<Rightarrow> (Inl e, db')
      | (Inr (Some u), db') \<Rightarrow> (Inr u, db')
      | (Inr None, db') \<Rightarrow>
          (Inr \<lparr>unit_id = 1, unit_name = ''Default Unit'', unit_code = code\<rparr>, db'))"

definition new_service :: "string \<Rightarrow> database \<Rightarrow> string \<Rightarrow> (exn + service) \<times> database" where
  "new_service dev db code =
     (case initialize_unit db code of
        (Inl e, db') \<Rightarrow> (Inl e, db')
      | (Inr u, db') \<Rightarrow> (Inr \<lparr>svc_unit_code = code, unit_info = u, device = dev\<rparr>, db'))"

text \<open>
  The response dictionary.  \<open>error = None\<close> stands for a dictionary without the key
  \<open>'error'\<close>; \<open>person\<close> and \<open>timestamp\<close> are keys that are always there and may hold \<open>None\<close>.
\<close>

record person_view =
  pv_id :: int
  pv_name :: string
  pv_cpf :: string
  pv_type :: string
  finger_used :: string

record response =
  access_granted :: bool
  result :: string
  error :: "string option"
  timestamp :: "string option"
  resp_unit_code :: string
  resp_device :: string
  person :: "person_view option"

text \<open>
  \<open>_validate_input\<close> returns \<open>{'valid': False, 'error': m}\<close>, modelled by \<open>Some m\<close>, or
  \<open>{'valid': True, 'error': None}\<close>, modelled by \<open>None\<close>.
\<close>

definition invalid_finger_message :: string where
  "invalid_finger_message =
     ''Invalid finger type. Valid options: ['' @
     concat (map (\<lambda>f. [CHR 0x27] @ f @ [CHR 0x27, CHR '','', CHR '' '']) (butlast FingerType_values)) @
     [CHR 0x27] @ last FingerType_values @ [CHR 0x27] @ '']''"

definition validate_input :: "string \<Rightarrow> string \<Rightarrow> string option" where
  "validate_input template_base64 fng =
     (if template_base64 = [] \<or> py_strip template_base64 = [] then
        Some ''Template data is required''
      else if fng \<notin> set FingerType_values then Some invalid_finger_message
      else (case b64decode template_base64 of
              Inl _ \<Rightarrow> Some ''Invalid base64 template format''
            | Inr _ \<Rightarrow> None))"

definition convert_template :: "string \<Rightarrow> exn + bytes" where
  "convert_template template_base64 =
     (case b64decode template_base64 of
        Inl e \<Rightarrow> Inl (ValueError (''Invalid template format: '' @ exn_text e))
      | Inr template_data \<Rightarrow> Inr template_data)"

text \<open>
  \<open>_log_access_attempt\<close> catches whatever the storage raises, so it only returns the
  state of the storage.
\<close>

definition log_access_attempt_svc ::
  "service \<Rightarrow> database \<Rightarrow> biometric_row option \<Rightarrow> AccessResult \<Rightarrow> database" where
  "log_access_attempt_svc svc db person_info access_result =
     snd (log_access_attempt db
            (map_option person_id person_info)
            (unit_id (unit_info svc))
            (device svc)
            (access_result = GRANTED))"

definition create_response :: "service \<Rightarrow> AccessResult \<Rightarrow> biometric_row option \<Rightarrow> response" where
  "create_response svc access_result person_info =
     \<lparr>access_granted = (access_result = GRANTED),
      result = AccessResult_value access_result,
      error = None,
      timestamp = None,
      resp_unit_code = svc_unit_code svc,
      resp_device = device svc,
      person = map_option
        (\<lambda>p. \<lparr>pv_id = person_id p, pv_name = full_name p, pv_cpf = cpf p,
              pv_type = person_type p, finger_used = finger p\<rparr>) person_info\<rparr>"

definition create_error_response :: "service \<Rightarrow> string \<Rightarrow> response" where
  "create_error_response svc error_message =
     \<lparr>access_granted = False,
      result = AccessResult_value ERROR,
      error = Some error_message,
      timestamp = None,
      resp_unit_code = svc_unit_code svc,
      resp_device = device svc,
      person = None\<rparr>"

definition process_biometric_query ::
  "service \<Rightarrow> database \<Rightarrow> string \<Rightarrow> string \<Rightarrow> response \<times> database" where
  "process_biometric_query svc db template_base64 fng =
     (case validate_input template_base64 fng of
        Some m \<Rightarrow> (create_error_response svc m, db)
      | None \<Rightarrow>
          (case convert_template template_base64 of
             Inl e \<Rightarrow> (create_error_response svc (''System error: '' @ exn_text e), db)
           | Inr template_data \<Rightarrow>
               (case find_biometric_by_template db template_data fng of
                  (Inl e, db1) \<Rightarrow>
                    (create_error_response svc (''System error: '' @ exn_text e), db1)
                | (Inr person_info, db1) \<Rightarrow>
                    (let access_result = (if person_info \<noteq> None then GRANTED else DENIED);
                         db2 = log_access_attempt_svc svc db1 person_info access_result
                     in (create_response svc access_result person_info, db2)))))"

text \<open>A session: the queries of one service object, one after the other.\<close>

fun run_queries ::
  "service \<Rightarrow> database \<Rightarrow> (string \<times> string) list \<Rightarrow> response list \<times> database" where
  "run_queries svc db [] = ([], db)"
| "run_queries svc db ((t, f) # qs) =
     (case process_biometric_query svc db t f of
        (r, db1) \<Rightarrow> (case run_queries svc db1 qs of (rs, db2) \<Rightarrow> (r # rs, db2)))"

section \<open>The sensor interface (sensor_interface.py)\<close>

record command =
  cmd_type :: string
  cmd_template :: string
  cmd_finger :: string
  cmd_timestamp :: string

text \<open>
  \<open>_process_command\<close>.  Nothing in the body of its \<open>try\<close> raises (the query catches its
  own exceptions), so the \<open>except\<close> clause, which would answer with result ERROR and an
  error text, has no branch here.
\<close>

definition process_command :: "service \<Rightarrow> database \<Rightarrow> command \<Rightarrow> response \<times> database" where
  "process_command svc db cmd =
     (let command_type = py_upper (cmd_type cmd) in
      if command_type = ''QUERY'' \<or> command_type = ''VERIFY'' then
        (case process_biometric_query svc db (cmd_template cmd) (cmd_finger cmd) of
           (r, db') \<Rightarrow> (r\<lparr>timestamp := Some (cmd_timestamp cmd)\<rparr>, db'))
      else if command_type = ''TEST'' then
        (\<lparr>access_granted = True,
          result = ''TEST_OK'',
          error = None,
          timestamp = Some (cmd_timestamp cmd),
          resp_unit_code = svc_unit_code svc,
          resp_device = device svc,
          person = None\<rparr>, db)
      else
        (\<lparr>access_granted = False,
          result = ''UNKNOWN_COMMAND'',
          error = Some (''Unknown command: '' @ command_type),
          timestamp = Some (cmd_timestamp cmd),
          resp_unit_code = svc_unit_code svc,
          resp_device = device svc,
          person = None\<rparr>, db))"

text \<open>
  The serial port: the bytes written so far and whether \<open>write\<close> raises.  The literal of
  \<open>_send_response\<close> is \<open>f"{sensor_response}\\n"\<close>: after the answer it holds a backslash
  (code 92) and the letter n, which \<open>encode('utf-8')\<close> leaves as two bytes.
\<close>

record serial_port =
  written :: bytes
  write_fails :: bool

definition send_response :: "serial_port \<Rightarrow> response \<Rightarrow> serial_port" where
  "send_response ser r =
     (let sensor_response = (if access_granted r then ''YES'' else ''NO'') in
      if write_fails ser then ser
      else ser\<lparr>written := written ser @ sensor_response @ [CHR 0x5C, CHR ''n'']\<rparr>)"

section \<open>float() and the template vector (biometria/matcher.py)\<close>



















section \<open>The access loop (database/db_connector.py, hardware, principal/main.py)\<close>













section \<open>The selection the specification asks of the similarity strategy\<close>






section \<open>Concrete installations used in the examples\<close>

definition example_service :: service where
  "example_service =
     \<lparr>svc_unit_code = ''ETEC01'',
      unit_info = \<lparr>unit_id = 7, unit_name = ''ETEC'', unit_code = ''ETEC01''\<rparr>,
      device = ''R307''\<rparr>"

definition empty_database :: database where
  "empty_database =
     \<lparr>biometric_rows = [], unit_rows = [], access_log = [],
      faults = (\<lambda>n. None), operations = 0\<rparr>"

text \<open>One enrolled person whose template is the three bytes \<open>ABC\<close>.\<close>

definition enrolled_database :: database where
  "enrolled_database =
     \<lparr>biometric_rows =
        [\<lparr>template = ''ABC'', finger = ''index_right'', person_id = 42,
          full_name = ''Ana Souza'', cpf = ''00000000000'', person_type = ''student''\<rparr>],
      unit_rows = [], access_log = [],
      faults = (\<lambda>n. None), operations = 0\<rparr>"



definition example_command :: "string \<Rightarrow> command" where
  "example_command ty =
     \<lparr>cmd_type = ty, cmd_template = ''QUJD'', cmd_finger = ''index_right'',
      cmd_timestamp = ''2025-09-11T10:00:00''\<rparr>"

definition example_port :: serial_port where
  "example_port = \<lparr>written = [], write_fails = False\<rparr>"




section \<open>Unfolding the model\<close>

lemmas storage_defs = get_connection_def find_biometric_by_template_def log_access_attempt_def
  get_unit_by_code_def

lemmas service_defs = process_biometric_query_def log_access_attempt_svc_def create_response_def
  create_error_response_def

lemma char_eq_char_of: "(c = char_of (n::nat)) = (take_bit 8 n = of_char c)"
  using char_of_eq_iff [of n c] by auto

lemmas text_defs = py_strip_def py_isspace_def py_upper_def upper_char_def char_of_eq_iff
  char_eq_char_of b64decode_def b64_index_def validate_input_def convert_template_def FingerType_values_def

section \<open>The audit log of the query service\<close>

lemma query_log_growth:
  "\<exists>es. access_log (snd (process_biometric_query svc db t f)) = access_log db @ es \<and>
        (\<forall>e\<in>set es. log_unit_id e = unit_id (unit_info svc))"
  by (auto simp: service_defs storage_defs Let_def split: option.splits sum.splits prod.splits)

lemma session_log_growth:
  "\<exists>es. access_log (snd (run_queries svc db qs)) = access_log db @ es \<and>
        (\<forall>e\<in>set es. log_unit_id e = unit_id (unit_info svc))"
proof (induction qs arbitrary: db)
  case Nil
  then show ?case by simp
next
  case (Cons q qs)
  obtain t f where q: "q = (t, f)" by (cases q)
  obtain r db1 where step: "process_biometric_query svc db t f = (r, db1)"
    by (cases "process_biometric_query svc db t f")
  obtain es1 where es1: "access_log db1 = access_log db @ es1"
      "\<forall>e\<in>set es1. log_unit_id e = unit_id (unit_info svc)"
    using query_log_growth [of svc db t f] step by auto
  obtain es2 where es2: "access_log (snd (run_queries svc db1 qs)) = access_log db1 @ es2"
      "\<forall>e\<in>set es2. log_unit_id e = unit_id (unit_info svc)"
    using Cons.IH [of db1] by auto
  have "access_log (snd (run_queries svc db (q # qs))) = access_log db @ (es1 @ es2)"
    using q step es1(1) es2(1) by (auto split: prod.splits)
  moreover have "\<forall>e\<in>set (es1 @ es2). log_unit_id e = unit_id (unit_info svc)"
    using es1(2) es2(2) by auto
  ultimately show ?case by blast
qed

text \<open>
  Claim C10.  When \<open>get_unit_by_code\<close> finds no unit for the code given at initialisation,
  building the service succeeds all the same with a default unit record whose id is 1,
  and every entry that any sequence of queries of that service appends to the access log,
  on whatever state of the storage, carries unit id 1.
\<close>

theorem unknown_unit_falls_back_to_unit_1:
  assumes "fst (get_unit_by_code db0 code) = Inr None"
  shows "\<exists>svc db1. new_service dev db0 code = (Inr svc, db1) \<and>
           unit_id (unit_info svc) = 1 \<and>
           (\<forall>db qs. \<exists>es. access_log (snd (run_queries svc db qs)) = access_log db @ es \<and>
                          (\<forall>e\<in>set es. log_unit_id e = 1))"
proof -
  obtain db1 where g: "get_unit_by_code db0 code = (Inr None, db1)"
    using assms by (cases "get_unit_by_code db0 code") auto
  let ?svc = "\<lparr>svc_unit_code = code,
               unit_info = \<lparr>unit_id = 1, unit_name = ''Default Unit'', unit_code = code\<rparr>,
               device = dev\<rparr>"
  have n: "new_service dev db0 code = (Inr ?svc, db1)"
    using g by (simp add: new_service_def initialize_unit_def)
  have "\<forall>db qs. \<exists>es. access_log (snd (run_queries ?svc db qs)) = access_log db @ es \<and>
                          (\<forall>e\<in>set es. log_unit_id e = 1)"
    using session_log_growth [of ?svc] by simp
  with n show ?thesis by auto
qed

text \<open>The same on a storage without units and the unit code \<open>NOPE\<close>.\<close>

theorem unknown_unit_falls_back_to_unit_1_witness:
  "fst (get_unit_by_code empty_database ''NOPE'') = Inr None \<and>
   (\<exists>svc db1. new_service ''R307'' empty_database ''NOPE'' = (Inr svc, db1) \<and>
      unit_id (unit_info svc) = 1 \<and>
      (\<forall>db qs. \<exists>es. access_log (snd (run_queries svc db qs)) = access_log db @ es \<and>
                     (\<forall>e\<in>set es. log_unit_id e = 1)))"
proof -
  have h: "fst (get_unit_by_code empty_database ''NOPE'') = Inr None"
    by (simp add: storage_defs empty_database_def)
  show ?thesis
    using h unknown_unit_falls_back_to_unit_1 [OF h, of "''R307''"] by simp
qed




section \<open>Validation of the template\<close>

text \<open>
  Claim C2 says that every malformed base64 template, strings with characters outside
  the base64 alphabet included, gives an ERROR response.  The code at the template
  \<open>QUJD!\<close>: the decoder drops the exclamation mark and returns the bytes \<open>ABC\<close>, the
  validation passes, and the query is decided as DENIED on an empty storage and as
  GRANTED where \<open>ABC\<close> is enrolled, without an error message in either case.
\<close>

theorem stray_characters_pass_base64_validation:
  "b64decode ''QUJD!'' = Inr ''ABC'' \<and>
   validate_input ''QUJD!'' ''index_right'' = None \<and>
   fst (process_biometric_query example_service empty_database ''QUJD!'' ''index_right'') =
     \<lparr>access_granted = False, result = ''DENIED'', error = None, timestamp = None,
      resp_unit_code = ''ETEC01'', resp_device = ''R307'', person = None\<rparr> \<and>
   fst (process_biometric_query example_service enrolled_database ''QUJD!'' ''index_right'') =
     \<lparr>access_granted = True, result = ''GRANTED'', error = None, timestamp = None,
      resp_unit_code = ''ETEC01'', resp_device = ''R307'',
      person = Some \<lparr>pv_id = 42, pv_name = ''Ana Souza'', pv_cpf = ''00000000000'',
                     pv_type = ''student'', finger_used = ''index_right''\<rparr>\<rparr>"
  by (simp add: service_defs storage_defs text_defs example_service_def empty_database_def
      enrolled_database_def)

section \<open>The error field of a response\<close>

lemma query_error_iff:
  "(error (fst (process_biometric_query svc db t f)) \<noteq> None) =
   (result (fst (process_biometric_query svc db t f)) = ''ERROR'')"
  by (auto simp: service_defs Let_def split: option.splits sum.splits prod.splits)

text \<open>
  Claim C5 says that a response carries an \<open>error\<close> field exactly when its decision is
  ERROR.  The response to a command of unknown type carries the field and its result is
  \<open>UNKNOWN_COMMAND\<close>.
\<close>

theorem unknown_command_carries_error:
  "error (fst (process_command example_service empty_database (example_command ''PING'')))
     = Some ''Unknown command: PING'' \<and>
   result (fst (process_command example_service empty_database (example_command ''PING'')))
     = ''UNKNOWN_COMMAND''"
  by (simp add: process_command_def example_command_def text_defs)

text \<open>
  Claim C5, amended.  The response of one command cycle carries an \<open>error\<close> field exactly
  when its result is ERROR or UNKNOWN_COMMAND; so GRANTED, DENIED and TEST_OK responses
  carry none.
\<close>

theorem error_field_iff_error_or_unknown:
  "(error (fst (process_command svc db cmd)) \<noteq> None) =
   (result (fst (process_command svc db cmd)) = ''ERROR'' \<or>
    result (fst (process_command svc db cmd)) = ''UNKNOWN_COMMAND'')"
  using query_error_iff [of svc db "cmd_template cmd" "cmd_finger cmd"]
  apply (simp add: process_command_def Let_def split: prod.splits)
  apply (auto simp: service_defs Let_def split: option.splits sum.splits prod.splits)
  done

section \<open>The line written to the sensor\<close>

text \<open>
  Claim C6 says that the line written back is exactly YES or NO, terminated by a newline.
  The code on a TEST command and on a QUERY that is denied: the answer is followed by the
  two characters backslash and n, and no newline (code 10) is written.
\<close>

theorem answer_ends_in_backslash_n:
  "written (send_response example_port
      (fst (process_command example_service empty_database (example_command ''TEST''))))
     = [CHR ''Y'', CHR ''E'', CHR ''S'', CHR 0x5C, CHR ''n''] \<and>
   written (send_response example_port
      (fst (process_command example_service empty_database (example_command ''QUERY''))))
     = [CHR ''N'', CHR ''O'', CHR 0x5C, CHR ''n''] \<and>
   CHR 0x0A \<notin> set (written (send_response example_port
      (fst (process_command example_service empty_database (example_command ''TEST'')))))"
  by (simp add: send_response_def process_command_def example_command_def example_port_def
      service_defs storage_defs text_defs example_service_def empty_database_def)

section \<open>Facts about the matcher\<close>

















section \<open>Faults of the matcher\<close>




section \<open>Which enrolled template is compared\<close>



section \<open>A vector compared with itself\<close>




section \<open>The gate\<close>




end
